theory Spec2Isabelle
  imports Main "HOL-Library.Word"
begin

section \<open>Strings of the host language\<close>

text \<open>
  A string of the source language is a sequence of 16-bit code units; \<open>slice\<close> and
  \<open>length\<close> count code units. \<open>lit\<close> embeds a literal of the source text (all of
  them are ASCII) into that type.
\<close>

type_synonym jsstring = "16 word list"

definition lit :: "string \<Rightarrow> jsstring" where
  "lit s = map of_char s"

text \<open>
  \<open>String.prototype.slice(start, end)\<close>: a negative index counts from the end, every
  index is clamped to \<open>[0, length]\<close>, an absent \<open>end\<close> is the length, and an empty
  range gives the empty string.
\<close>

definition string_slice :: "int \<Rightarrow> int option \<Rightarrow> 'a list \<Rightarrow> 'a list" where
  "string_slice start fin xs =
     (let len = int (length xs);
          lo = (if start < 0 then max (len + start) 0 else min start len);
          hi = (case fin of
                  None \<Rightarrow> len
                | Some e \<Rightarrow> (if e < 0 then max (len + e) 0 else min e len))
      in take (nat (hi - lo)) (drop (nat lo) xs))"

section \<open>Data model (types)\<close>

record WalletState =
  isConnected :: bool
  address :: "jsstring option"
  isConnecting :: bool
  error :: "jsstring option"

text \<open>
  The injected provider object \<open>window.ethereum\<close>: its optional vendor flag and whether
  the optional members \<open>on\<close> and \<open>removeListener\<close> are present. The global is
  \<open>None\<close> where \<open>typeof window\<close> is \<open>'undefined'\<close>.
\<close>

record provider =
  isMetaMask :: "bool option"
  has_on :: bool
  has_removeListener :: bool

record window =
  ethereum :: "provider option"

text \<open>
  A value thrown by the provider's \<open>request\<close>, or an \<open>Error\<close> made by the hook: the
  two properties the hook reads, each possibly absent. The thrown value is an object, as
  the provider's interface has it: a numeric \<open>code\<close> and a string \<open>message\<close>.
\<close>

record failure =
  code :: "int option"
  message :: "jsstring option"

definition Error :: "jsstring \<Rightarrow> failure" where
  "Error msg = \<lparr>code = None, message = Some msg\<rparr>"

text \<open>How the promise returned by \<open>window.ethereum.request\<close> settles.\<close>

datatype outcome = Resolve "jsstring list" | Reject failure

section \<open>The hook \<open>useWallet\<close>\<close>

definition initialState :: WalletState where
  "initialState = \<lparr>isConnected = False, address = None, isConnecting = False, error = None\<rparr>"

definition isMetaMaskInstalled :: "window option \<Rightarrow> bool" where
  "isMetaMaskInstalled w =
     (case w of
        None \<Rightarrow> False
      | Some win \<Rightarrow>
          (case ethereum win of
             None \<Rightarrow> False
           | Some p \<Rightarrow> isMetaMask p = Some True))"

text \<open>
  \<open>getAccounts\<close> and \<open>requestAccounts\<close>: throw when the provider is not installed,
  otherwise settle as the provider's request does (the \<open>catch\<close> logs and rethrows).
\<close>

definition getAccounts :: "window option \<Rightarrow> outcome \<Rightarrow> outcome" where
  "getAccounts w out =
     (if \<not> isMetaMaskInstalled w then Reject (Error (lit ''MetaMask is not installed''))
      else out)"

definition requestAccounts :: "window option \<Rightarrow> outcome \<Rightarrow> outcome" where
  "requestAccounts w out =
     (if \<not> isMetaMaskInstalled w then Reject (Error (lit ''MetaMask is not installed''))
      else out)"

text \<open>
  The \<open>catch\<close> block of \<open>connectWallet\<close>: the message computed from the caught value.
  \<open>error.message\<close> is tested for truthiness, so an empty message counts as none.
\<close>

definition errorMessage :: "failure \<Rightarrow> jsstring" where
  "errorMessage e =
     (if code e = Some 4001 then lit ''Connection rejected by user''
      else if code e = Some (- 32002) then lit ''Connection request already pending''
      else (case message e of
              None \<Rightarrow> lit ''Failed to connect wallet''
            | Some m \<Rightarrow> (if m \<noteq> [] then m else lit ''Failed to connect wallet'')))"

text \<open>
  \<open>connectWallet\<close> is asynchronous. Its synchronous part either returns at once
  (provider not installed) or writes the connecting state and suspends on the request;
  the continuation runs when the request settles.
\<close>

datatype progress = Returned WalletState | Awaiting WalletState

definition connectWallet_begin :: "window option \<Rightarrow> WalletState \<Rightarrow> progress" where
  "connectWallet_begin w prev =
     (if \<not> isMetaMaskInstalled w then
        Returned (prev\<lparr>error :=
                     Some (lit ''MetaMask is not installed. Please install MetaMask to continue.''),
                   isConnecting := False\<rparr>)
      else Awaiting (prev\<lparr>isConnecting := True, error := None\<rparr>))"

definition connectWallet_resume :: "window option \<Rightarrow> outcome \<Rightarrow> WalletState \<Rightarrow> WalletState" where
  "connectWallet_resume w out s =
     (case (case requestAccounts w out of
              Resolve accounts \<Rightarrow>
                (if length accounts > 0 then Inr (accounts ! 0)
                 else Inl (Error (lit ''No accounts found'')))
            | Reject e \<Rightarrow> Inl e) of
        Inr a \<Rightarrow> \<lparr>isConnected = True, address = Some a, isConnecting = False, error = None\<rparr>
      | Inl e \<Rightarrow>
          \<lparr>isConnected = False, address = None, isConnecting = False,
           error = Some (errorMessage e)\<rparr>)"

text \<open>
  One whole call with nothing interleaved: the states written by \<open>setWalletState\<close>
  during the call, in order. The last one is the state the call settles in.
\<close>

definition connectWallet :: "window option \<Rightarrow> outcome \<Rightarrow> WalletState \<Rightarrow> WalletState list" where
  "connectWallet w out prev =
     (case connectWallet_begin w prev of
        Returned s \<Rightarrow> [s]
      | Awaiting s \<Rightarrow> [s, connectWallet_resume w out s])"

definition disconnectWallet :: "WalletState \<Rightarrow> WalletState" where
  "disconnectWallet s =
     \<lparr>isConnected = False, address = None, isConnecting = False, error = None\<rparr>"

definition formatAddress :: "jsstring \<Rightarrow> jsstring" where
  "formatAddress addr =
     (if addr = [] then []
      else string_slice 0 (Some 6) addr @ lit ''...'' @ string_slice (- 4) None addr)"

text \<open>
  The mount-time probe \<open>checkConnection\<close>: it writes nothing before its request
  settles, and afterwards only on a non-empty result; failures are logged and dropped.
\<close>

definition checkConnection :: "window option \<Rightarrow> outcome \<Rightarrow> WalletState \<Rightarrow> WalletState" where
  "checkConnection w out s =
     (if isMetaMaskInstalled w then
        (case getAccounts w out of
           Resolve accounts \<Rightarrow>
             (if length accounts > 0 then
                \<lparr>isConnected = True, address = Some (accounts ! 0), isConnecting = False,
                 error = None\<rparr>
              else s)
         | Reject e \<Rightarrow> s)
      else s)"

text \<open>
  The listener for \<open>accountsChanged\<close>. \<open>captured\<close> is \<open>walletState.address\<close> as the
  closure holds it, the address of the render that registered the listener.
\<close>

definition handleAccountsChanged ::
    "jsstring option \<Rightarrow> jsstring list \<Rightarrow> WalletState \<Rightarrow> WalletState" where
  "handleAccountsChanged captured accounts prev =
     (if length accounts = 0 then disconnectWallet prev
      else if Some (accounts ! 0) \<noteq> captured then
        prev\<lparr>address := Some (accounts ! 0), isConnected := True, error := None\<rparr>
      else prev)"

text \<open>The listener is registered only under the guard of its effect.\<close>

definition listenerRegistered :: "window option \<Rightarrow> bool" where
  "listenerRegistered w =
     (isMetaMaskInstalled w \<and>
      (case w of
         None \<Rightarrow> False
       | Some win \<Rightarrow> (case ethereum win of None \<Rightarrow> False | Some p \<Rightarrow> has_on p)))"

section \<open>Runs of the state machine\<close>

text \<open>
  What can happen to the state, one event per write of a handler. A connect call is two
  events, so that anything may happen between its start and the settling of its request.
  Each event carries what the handler reads from outside: the global (for a settling
  connect call, the global as \<open>requestAccounts\<close> read it), the way the request
  settles, the address captured by the listener. A settling event is accepted at any
  moment, and the captured address is arbitrary, so the runs include every schedule of
  the hook and more.
\<close>

datatype event =
    ConnectCalled "window option"
  | ConnectSettled "window option" outcome
  | DisconnectCalled
  | MountChecked "window option" outcome
  | AccountsChanged "window option" "jsstring option" "jsstring list"

fun apply_event :: "event \<Rightarrow> WalletState \<Rightarrow> WalletState" where
  "apply_event (ConnectCalled w) s =
     (case connectWallet_begin w s of Returned s' \<Rightarrow> s' | Awaiting s' \<Rightarrow> s')"
| "apply_event (ConnectSettled w out) s = connectWallet_resume w out s"
| "apply_event DisconnectCalled s = disconnectWallet s"
| "apply_event (MountChecked w out) s = checkConnection w out s"
| "apply_event (AccountsChanged w captured accounts) s =
     (if listenerRegistered w then handleAccountsChanged captured accounts s else s)"

fun run :: "event list \<Rightarrow> WalletState \<Rightarrow> WalletState" where
  "run [] s = s"
| "run (e # es) s = run es (apply_event e s)"

subsection \<open>Sample values\<close>

text \<open>A global with MetaMask injected, and two addresses, for the concrete instances.\<close>

definition metamaskWindow :: "window option" where
  "metamaskWindow =
     Some \<lparr>ethereum = Some \<lparr>isMetaMask = Some True, has_on = True, has_removeListener = True\<rparr>\<rparr>"

definition addrA :: jsstring where
  "addrA = lit ''0xAAA1111111111111111111111111111111111AAA''"

definition addrB :: jsstring where
  "addrB = lit ''0xBBB2222222222222222222222222222222222BBB''"

section \<open>Auxiliary facts\<close>

lemma metamaskWindow_installed: "isMetaMaskInstalled metamaskWindow"
  by (simp add: metamaskWindow_def isMetaMaskInstalled_def)

lemma metamaskWindow_listening: "listenerRegistered metamaskWindow"
  by (simp add: metamaskWindow_def listenerRegistered_def isMetaMaskInstalled_def)

lemma no_window_not_installed: "\<not> isMetaMaskInstalled None"
  by (simp add: isMetaMaskInstalled_def)

lemma addrA_neq_addrB: "addrA \<noteq> addrB"
  by (simp add: addrA_def addrB_def lit_def)

lemma string_slice_first6: "string_slice 0 (Some 6) xs = take 6 xs"
  by (simp add: string_slice_def Let_def min_def)

lemma string_slice_last4: "string_slice (- 4) None xs = drop (length xs - 4) xs"
proof -
  have "nat (int (length xs) - 4) = length xs - 4" by arith
  then show ?thesis by (auto simp add: string_slice_def Let_def max_def)
qed

text \<open>
  What the listener does on a non-empty list, for any captured address: it writes when
  the first entry differs from the captured address and does nothing otherwise. When the
  captured address is the stored one, that is a comparison with the stored address.
\<close>

lemma handleAccountsChanged_nonempty:
  assumes "accounts \<noteq> []"
  shows "handleAccountsChanged captured accounts prev =
           (if Some (hd accounts) \<noteq> captured
            then prev\<lparr>address := Some (hd accounts), isConnected := True, error := None\<rparr>
            else prev)"
  using assms by (simp add: handleAccountsChanged_def hd_conv_nth)

lemma handleAccountsChanged_fresh_listener:
  assumes "accounts \<noteq> []" and "Some (hd accounts) \<noteq> address prev"
  shows "handleAccountsChanged (address prev) accounts prev =
           prev\<lparr>address := Some (hd accounts), isConnected := True, error := None\<rparr>"
  using assms by (simp add: handleAccountsChanged_nonempty)

text \<open>Every event keeps the link between \<open>address\<close> and \<open>isConnected\<close>.\<close>

lemma apply_event_keeps_link:
  assumes "(address s \<noteq> None) = isConnected s"
  shows "(address (apply_event e s) \<noteq> None) = isConnected (apply_event e s)"
proof (cases e)
  case (ConnectCalled w)
  with assms show ?thesis by (simp add: connectWallet_begin_def)
next
  case (ConnectSettled w out)
  with assms show ?thesis
    by (simp add: connectWallet_resume_def split: outcome.splits sum.splits)
next
  case DisconnectCalled
  then show ?thesis by (simp add: disconnectWallet_def)
next
  case (MountChecked w out)
  with assms show ?thesis
    by (simp add: checkConnection_def split: outcome.splits)
next
  case (AccountsChanged w captured accounts)
  with assms show ?thesis
    by (simp add: handleAccountsChanged_def disconnectWallet_def)
qed

lemma run_keeps_link:
  "(address s \<noteq> None) = isConnected s \<Longrightarrow>
   (address (run evs s) \<noteq> None) = isConnected (run evs s)"
proof (induction evs arbitrary: s)
  case Nil
  then show ?case by simp
next
  case (Cons e es)
  from Cons.prems
  have "(address (apply_event e s) \<noteq> None) = isConnected (apply_event e s)"
    by (rule apply_event_keeps_link)
  then show ?case using Cons.IH by simp
qed

section \<open>Properties\<close>

text \<open>
  C1. In every state reached from the initial state by any sequence of events (connect
  calls and the settling of their requests with any outcome, disconnect calls, the
  mount-time check, account-change notifications), \<open>address\<close> is present exactly when
  \<open>isConnected\<close> is true.
\<close>

theorem address_iff_isConnected:
  "(address (run evs initialState) \<noteq> None) = isConnected (run evs initialState)"
  by (rule run_keeps_link) (simp add: initialState_def)

text \<open>
  C2. With the provider installed and the account request resolving with a non-empty
  list, \<open>connectWallet\<close> settles, from any state, in the connected state whose address
  is the first element of the list, with \<open>isConnecting\<close> false and no error.
\<close>

theorem connectWallet_first_account:
  assumes "isMetaMaskInstalled w" and "accounts \<noteq> []"
  shows "last (connectWallet w (Resolve accounts) prev) =
           \<lparr>isConnected = True, address = Some (hd accounts), isConnecting = False,
            error = None\<rparr>"
  using assms
  by (simp add: connectWallet_def connectWallet_begin_def connectWallet_resume_def
        requestAccounts_def hd_conv_nth)

theorem connectWallet_first_account_witness:
  "isMetaMaskInstalled metamaskWindow \<and> [addrA, addrB] \<noteq> []
   \<and> last (connectWallet metamaskWindow (Resolve [addrA, addrB]) initialState) =
       \<lparr>isConnected = True, address = Some addrA, isConnecting = False, error = None\<rparr>"
  using connectWallet_first_account [of metamaskWindow "[addrA, addrB]" initialState]
    metamaskWindow_installed
  by simp

text \<open>
  C3 (as amended). If the provider is reported not installed, \<open>connectWallet\<close> returns
  without awaiting after a single write that sets \<open>error\<close> to the fixed message and
  \<open>isConnecting\<close> to false and keeps \<open>isConnected\<close> and \<open>address\<close>; no state written
  during the call has \<open>isConnecting\<close> true; called from a state that is not connected,
  the result is the disconnected state with that error.
\<close>

theorem connectWallet_not_installed:
  assumes "\<not> isMetaMaskInstalled w"
    and "s' = prev\<lparr>error :=
                  Some (lit ''MetaMask is not installed. Please install MetaMask to continue.''),
                isConnecting := False\<rparr>"
  shows "connectWallet_begin w prev = Returned s'
     \<and> connectWallet w out prev = [s']
     \<and> list_all (\<lambda>s. \<not> isConnecting s) (connectWallet w out prev)
     \<and> isConnected s' = isConnected prev \<and> address s' = address prev
     \<and> (\<not> isConnected prev \<and> address prev = None \<longrightarrow>
          s' = \<lparr>isConnected = False, address = None, isConnecting = False,
                error = Some (lit
                  ''MetaMask is not installed. Please install MetaMask to continue.'')\<rparr>)"
  using assms
  by (simp add: connectWallet_def connectWallet_begin_def)

theorem connectWallet_not_installed_witness:
  "\<not> isMetaMaskInstalled None
   \<and> connectWallet_begin None initialState =
       Returned \<lparr>isConnected = False, address = None, isConnecting = False,
                 error = Some (lit
                   ''MetaMask is not installed. Please install MetaMask to continue.'')\<rparr>
   \<and> connectWallet None (Resolve [addrA]) initialState =
       [\<lparr>isConnected = False, address = None, isConnecting = False,
         error = Some (lit
           ''MetaMask is not installed. Please install MetaMask to continue.'')\<rparr>]"
  using connectWallet_not_installed [of None _ initialState "Resolve [addrA]", OF _ refl]
    no_window_not_installed
  by (simp add: initialState_def)

text \<open>
  The claim as written fails when the call starts from a connected state: after the
  mount-time check has found an account, a call with the provider reported absent leaves
  the state connected, with the address kept and the error set.
\<close>

theorem connectWallet_not_installed_counterexample:
  "\<not> isMetaMaskInstalled None
   \<and> last (connectWallet None (Resolve [])
            (run [MountChecked metamaskWindow (Resolve [addrA])] initialState)) =
       \<lparr>isConnected = True, address = Some addrA, isConnecting = False,
        error = Some (lit
          ''MetaMask is not installed. Please install MetaMask to continue.'')\<rparr>"
  by (simp add: isMetaMaskInstalled_def metamaskWindow_def connectWallet_def
        connectWallet_begin_def checkConnection_def getAccounts_def initialState_def)

text \<open>
  C4. When the account request of \<open>connectWallet\<close> rejects, the call settles in a state
  that is not connected, has no address and is not connecting, and whose error is:
  for code 4001 "Connection rejected by user"; for code -32002 "Connection request
  already pending"; for any other failure its message, when it has a (non-empty) one;
  and "Failed to connect wallet" when the message is absent or empty.
\<close>

theorem connectWallet_rejected:
  assumes "isMetaMaskInstalled w"
    and "s' = last (connectWallet w (Reject e) prev)"
  shows "isConnected s' = False \<and> address s' = None \<and> isConnecting s' = False
     \<and> (code e = Some 4001 \<longrightarrow> error s' = Some (lit ''Connection rejected by user''))
     \<and> (code e = Some (- 32002) \<longrightarrow>
          error s' = Some (lit ''Connection request already pending''))
     \<and> (code e \<noteq> Some 4001 \<and> code e \<noteq> Some (- 32002) \<longrightarrow>
          (\<forall>m. message e = Some m \<and> m \<noteq> [] \<longrightarrow> error s' = Some m)
        \<and> (message e = None \<or> message e = Some [] \<longrightarrow>
             error s' = Some (lit ''Failed to connect wallet'')))"
  using assms
  by (auto simp add: connectWallet_def connectWallet_begin_def connectWallet_resume_def
        requestAccounts_def errorMessage_def)

theorem connectWallet_rejected_witness:
  "isMetaMaskInstalled metamaskWindow
   \<and> error (last (connectWallet metamaskWindow
        (Reject \<lparr>code = Some 4001, message = Some (lit ''User rejected the request.'')\<rparr>)
        initialState)) = Some (lit ''Connection rejected by user'')
   \<and> error (last (connectWallet metamaskWindow
        (Reject \<lparr>code = Some (- 32002), message = Some (lit ''Already processing'')\<rparr>)
        initialState)) = Some (lit ''Connection request already pending'')
   \<and> error (last (connectWallet metamaskWindow
        (Reject \<lparr>code = Some (- 32603), message = Some (lit ''Internal error'')\<rparr>)
        initialState)) = Some (lit ''Internal error'')
   \<and> error (last (connectWallet metamaskWindow
        (Reject \<lparr>code = None, message = None\<rparr>)
        initialState)) = Some (lit ''Failed to connect wallet'')"
  using
    connectWallet_rejected [of metamaskWindow _
      "\<lparr>code = Some 4001, message = Some (lit ''User rejected the request.'')\<rparr>"
      initialState, OF metamaskWindow_installed refl]
    connectWallet_rejected [of metamaskWindow _
      "\<lparr>code = Some (- 32002), message = Some (lit ''Already processing'')\<rparr>"
      initialState, OF metamaskWindow_installed refl]
    connectWallet_rejected [of metamaskWindow _
      "\<lparr>code = Some (- 32603), message = Some (lit ''Internal error'')\<rparr>"
      initialState, OF metamaskWindow_installed refl]
    connectWallet_rejected [of metamaskWindow _
      "\<lparr>code = None, message = None\<rparr>"
      initialState, OF metamaskWindow_installed refl]
    metamaskWindow_installed
  by (simp add: lit_def)

text \<open>
  C5 (as amended). \<open>formatAddress\<close> of the empty string is the empty string. Of a
  non-empty string it is the first 6 code units (all of them when there are fewer), then
  three full stops, then the last 4 code units (all of them when there are fewer); so
  \<open>formatAddress("0x1234567890abcdef")\<close> is \<open>"0x1234...cdef"\<close>.
\<close>

theorem formatAddress_shortens:
  "formatAddress [] = []
   \<and> (addr \<noteq> [] \<longrightarrow>
        formatAddress addr = take 6 addr @ [0x2E, 0x2E, 0x2E] @ drop (length addr - 4) addr)
   \<and> formatAddress (lit ''0x1234567890abcdef'') = lit ''0x1234...cdef''"
proof -
  have dots: "lit ''...'' = [0x2E, 0x2E, 0x2E]"
    by (simp add: lit_def)
  have empty: "formatAddress [] = []"
    by (simp add: formatAddress_def)
  have general: "addr \<noteq> [] \<longrightarrow>
      formatAddress addr = take 6 addr @ [0x2E, 0x2E, 0x2E] @ drop (length addr - 4) addr"
    by (simp add: formatAddress_def string_slice_first6 string_slice_last4 dots)
  have example: "formatAddress (lit ''0x1234567890abcdef'') = lit ''0x1234...cdef''"
    by (simp add: formatAddress_def string_slice_first6 string_slice_last4 lit_def)
  from empty general example show ?thesis by blast
qed

theorem formatAddress_shortens_witness:
  "lit ''abc'' \<noteq> [] \<and> formatAddress (lit ''abc'') = lit ''abc...abc''"
  using formatAddress_shortens [of "lit ''abc''"]
  by (simp add: lit_def)

text \<open>
  The claim as written names the one-character ellipsis (code unit 2026 hexadecimal)
  between the two parts; the function puts three full stops there.
\<close>

theorem formatAddress_ellipsis_counterexample:
  "formatAddress (lit ''0x1234567890abcdef'') \<noteq> lit ''0x1234'' @ [0x2026] @ lit ''cdef''"
  by (simp add: formatAddress_def string_slice_def lit_def)

text \<open>
  C6. An account-change notification with an empty list, arriving in a connected state,
  gives the empty disconnected state: not connected, no address, not connecting, no
  error.
\<close>

theorem accountsChanged_empty_disconnects:
  assumes "isConnected prev" and "address prev = Some a"
  shows "handleAccountsChanged captured [] prev =
           \<lparr>isConnected = False, address = None, isConnecting = False, error = None\<rparr>"
  by (simp add: handleAccountsChanged_def disconnectWallet_def)

theorem accountsChanged_empty_disconnects_witness:
  "handleAccountsChanged (Some addrA) []
     \<lparr>isConnected = True, address = Some addrA, isConnecting = False, error = None\<rparr> =
   \<lparr>isConnected = False, address = None, isConnecting = False, error = None\<rparr>"
  using accountsChanged_empty_disconnects
    [of "\<lparr>isConnected = True, address = Some addrA, isConnecting = False, error = None\<rparr>"
        addrA "Some addrA"]
  by simp

text \<open>
  C7. An account-change notification arriving in a connected state with a non-empty list
  whose first entry differs from the stored address should set \<open>address\<close> to that
  entry, keep \<open>isConnected\<close> true, clear \<open>error\<close> and leave \<open>isConnecting\<close> alone.
  The listener compares the first entry with the address its closure captured, not with
  the stored one. Here the mount-time check connects with \<open>addrB\<close> and the listener
  is registered anew, holding \<open>addrB\<close>; a notification \<open>[addrA]\<close> stores \<open>addrA\<close>; a
  second notification \<open>[addrB]\<close> reaches the same listener before it is registered
  again. The state is connected with \<open>addrA\<close>, the first entry \<open>addrB\<close> differs from
  it, and the handler writes nothing: the stored address stays \<open>addrA\<close>.
\<close>

theorem accountsChanged_stale_listener_keeps_address:
  "run [MountChecked metamaskWindow (Resolve [addrB]),
        AccountsChanged metamaskWindow (Some addrB) [addrA]] initialState =
     \<lparr>isConnected = True, address = Some addrA, isConnecting = False, error = None\<rparr>
   \<and> hd [addrB] \<noteq> addrA
   \<and> handleAccountsChanged (Some addrB) [addrB]
       \<lparr>isConnected = True, address = Some addrA, isConnecting = False, error = None\<rparr> =
     \<lparr>isConnected = True, address = Some addrA, isConnecting = False, error = None\<rparr>
   \<and> run [MountChecked metamaskWindow (Resolve [addrB]),
          AccountsChanged metamaskWindow (Some addrB) [addrA],
          AccountsChanged metamaskWindow (Some addrB) [addrB]] initialState =
       \<lparr>isConnected = True, address = Some addrA, isConnecting = False, error = None\<rparr>"
proof -
  have installed: "isMetaMaskInstalled metamaskWindow"
    by (rule metamaskWindow_installed)
  have listening: "listenerRegistered metamaskWindow"
    by (rule metamaskWindow_listening)
  have differ: "addrB \<noteq> addrA"
    using addrA_neq_addrB by simp
  have mounted: "checkConnection metamaskWindow (Resolve [addrB]) initialState =
      \<lparr>isConnected = True, address = Some addrB, isConnecting = False, error = None\<rparr>"
    using installed by (simp add: checkConnection_def getAccounts_def)
  have switched: "handleAccountsChanged (Some addrB) [addrA]
      \<lparr>isConnected = True, address = Some addrB, isConnecting = False, error = None\<rparr> =
      \<lparr>isConnected = True, address = Some addrA, isConnecting = False, error = None\<rparr>"
    using differ by (simp add: handleAccountsChanged_def)
  have stale: "handleAccountsChanged (Some addrB) [addrB]
      \<lparr>isConnected = True, address = Some addrA, isConnecting = False, error = None\<rparr> =
      \<lparr>isConnected = True, address = Some addrA, isConnecting = False, error = None\<rparr>"
    by (simp add: handleAccountsChanged_def)
  from listening mounted switched stale differ show ?thesis by simp
qed

text \<open>
  C8. With the provider installed and the account request resolving with an empty list,
  \<open>connectWallet\<close> settles in a state that is not connected, has no address, is not
  connecting, and carries the error "No accounts found".
\<close>

theorem connectWallet_no_accounts:
  assumes "isMetaMaskInstalled w"
  shows "last (connectWallet w (Resolve []) prev) =
           \<lparr>isConnected = False, address = None, isConnecting = False,
            error = Some (lit ''No accounts found'')\<rparr>"
  using assms
  by (simp add: connectWallet_def connectWallet_begin_def connectWallet_resume_def
        requestAccounts_def errorMessage_def Error_def lit_def)

theorem connectWallet_no_accounts_witness:
  "isMetaMaskInstalled metamaskWindow
   \<and> last (connectWallet metamaskWindow (Resolve [])
        \<lparr>isConnected = True, address = Some addrA, isConnecting = False, error = None\<rparr>) =
       \<lparr>isConnected = False, address = None, isConnecting = False,
        error = Some (lit ''No accounts found'')\<rparr>"
  using connectWallet_no_accounts
    [of metamaskWindow
        "\<lparr>isConnected = True, address = Some addrA, isConnecting = False, error = None\<rparr>"]
    metamaskWindow_installed
  by simp

text \<open>
  C9. \<open>disconnectWallet\<close> has no failing branch and, from any state, gives the empty
  disconnected state (not connected, no address, not connecting, no error); calling it
  again on its own result, or on the empty state, changes nothing.
\<close>

theorem disconnectWallet_resets:
  "disconnectWallet s =
     \<lparr>isConnected = False, address = None, isConnecting = False, error = None\<rparr>
   \<and> disconnectWallet (disconnectWallet s) = disconnectWallet s
   \<and> disconnectWallet initialState = initialState"
  by (simp add: disconnectWallet_def initialState_def)

text \<open>
  C10. An account-change notification with a non-empty list, arriving in a state that is
  not connected and has no address, should make the state connected with the first entry
  as address and no error. The listener compares the first entry with the address its
  closure captured, not with the stored one. Here the mount-time check connects with
  \<open>addrA\<close> and the listener is registered anew, holding \<open>addrA\<close>; a notification
  \<open>[]\<close> disconnects; a second notification \<open>[addrA]\<close> reaches the same listener
  before it is registered again. The state is disconnected with no address, the list is
  not empty, and the handler writes nothing: the state stays disconnected.
\<close>

theorem accountsChanged_stale_listener_stays_disconnected:
  "run [MountChecked metamaskWindow (Resolve [addrA]),
        AccountsChanged metamaskWindow (Some addrA) []] initialState =
     \<lparr>isConnected = False, address = None, isConnecting = False, error = None\<rparr>
   \<and> [addrA] \<noteq> []
   \<and> handleAccountsChanged (Some addrA) [addrA]
       \<lparr>isConnected = False, address = None, isConnecting = False, error = None\<rparr> =
     \<lparr>isConnected = False, address = None, isConnecting = False, error = None\<rparr>
   \<and> run [MountChecked metamaskWindow (Resolve [addrA]),
          AccountsChanged metamaskWindow (Some addrA) [],
          AccountsChanged metamaskWindow (Some addrA) [addrA]] initialState =
       \<lparr>isConnected = False, address = None, isConnecting = False, error = None\<rparr>"
proof -
  have installed: "isMetaMaskInstalled metamaskWindow"
    by (rule metamaskWindow_installed)
  have listening: "listenerRegistered metamaskWindow"
    by (rule metamaskWindow_listening)
  have mounted: "checkConnection metamaskWindow (Resolve [addrA]) initialState =
      \<lparr>isConnected = True, address = Some addrA, isConnecting = False, error = None\<rparr>"
    using installed by (simp add: checkConnection_def getAccounts_def)
  have emptied: "handleAccountsChanged (Some addrA) []
      \<lparr>isConnected = True, address = Some addrA, isConnecting = False, error = None\<rparr> =
      \<lparr>isConnected = False, address = None, isConnecting = False, error = None\<rparr>"
    by (simp add: handleAccountsChanged_def disconnectWallet_def)
  have stale: "handleAccountsChanged (Some addrA) [addrA]
      \<lparr>isConnected = False, address = None, isConnecting = False, error = None\<rparr> =
      \<lparr>isConnected = False, address = None, isConnecting = False, error = None\<rparr>"
    by (simp add: handleAccountsChanged_def)
  from listening mounted emptied stale show ?thesis by simp
qed

end
